theory Spec2Isabelle
  imports Complex_Main "HOL-Library.Sublist"
begin

section \<open>Python values\<close>

text \<open>
  The queue handler receives a decoded JSON document, so every field it reads has one
  of the shapes below. A float is a rational or one of the three special values that
  Python's JSON decoder accepts; the sign of zero is not kept (nothing here reads it).
  A str is a list of characters (\<open>len\<close> counts them, iteration visits them one by
  one). A dict is an association list: \<open>d.get(k)\<close> is \<open>map_of d k\<close>.
\<close>

datatype pyfloat = Finite rat | PosInf | NegInf | NaN

datatype pyval =
    PNone
  | PBool bool
  | PInt int
  | PFloat pyfloat
  | PStr string
  | PList "pyval list"
  | PDict "(string \<times> pyval) list"

text \<open>
  An exception is an instance of \<open>Exception\<close>: its class name and its \<open>str(exc)\<close>.
  (\<open>KeyboardInterrupt\<close> and \<open>SystemExit\<close>, which \<open>except Exception\<close> lets through,
  are not values of this type.)
\<close>

datatype py_exn = PyExn (exc_class: string) (exc_str: string)

text \<open>\<open>bool(v)\<close>, also the test of \<open>if v\<close>, \<open>not v\<close> and \<open>v or w\<close>.\<close>

fun py_truthy :: "pyval \<Rightarrow> bool" where
  "py_truthy PNone = False"
| "py_truthy (PBool b) = b"
| "py_truthy (PInt i) = (i \<noteq> 0)"
| "py_truthy (PFloat f) = (f \<noteq> Finite 0)"
| "py_truthy (PStr s) = (s \<noteq> [])"
| "py_truthy (PList xs) = (xs \<noteq> [])"
| "py_truthy (PDict d) = (d \<noteq> [])"

text \<open>\<open>type(v).__name__\<close>, as exception messages print it.\<close>

fun type_name :: "pyval \<Rightarrow> string" where
  "type_name PNone = ''NoneType''"
| "type_name (PBool b) = ''bool''"
| "type_name (PInt i) = ''int''"
| "type_name (PFloat f) = ''float''"
| "type_name (PStr s) = ''str''"
| "type_name (PList xs) = ''list''"
| "type_name (PDict d) = ''dict''"

text \<open>\<open>len(v)\<close>: defined on str, list and dict, a TypeError on everything else.\<close>

fun py_len :: "pyval \<Rightarrow> py_exn + nat" where
  "py_len (PStr s) = Inr (length s)"
| "py_len (PList xs) = Inr (length xs)"
| "py_len (PDict d) = Inr (length d)"
| "py_len v = Inl (PyExn ''TypeError'' (''object of type '' @ [CHR 0x27] @ type_name v @ [CHR 0x27] @ '' has no len()''))"

text \<open>
  The items a \<open>for\<close> loop (or \<open>enumerate\<close>) visits: the elements of a list, the
  one-character strings of a str, the keys of a dict.
\<close>

fun py_iter :: "pyval \<Rightarrow> py_exn + pyval list" where
  "py_iter (PList xs) = Inr xs"
| "py_iter (PStr s) = Inr (map (\<lambda>c. PStr [c]) s)"
| "py_iter (PDict d) = Inr (map (\<lambda>kv. PStr (fst kv)) d)"
| "py_iter v = Inl (PyExn ''TypeError'' ([CHR 0x27] @ type_name v @ [CHR 0x27] @ '' object is not iterable''))"

text \<open>Decimal rendering of integers, as \<open>str(i)\<close> and an f-string field give it.\<close>

definition digit_char :: "nat \<Rightarrow> char" where
  "digit_char d = ''0123456789'' ! d"

fun str_nat :: "nat \<Rightarrow> string" where
  "str_nat n = (if n < 10 then [digit_char n] else str_nat (n div 10) @ [digit_char (n mod 10)])"

definition str_int :: "int \<Rightarrow> string" where
  "str_int i = (if i < 0 then CHR ''-'' # str_nat (nat (- i)) else str_nat (nat i))"

section \<open>The flag resolver (handler.py)\<close>

text \<open>
  \<^verbatim>\<open>
  def _bool_flags_for_images(image_paths, remove_background_param):
      n = len(image_paths)
      if remove_background_param is None:
          return [False] * n
      if isinstance(remove_background_param, bool):
          return [remove_background_param] * n
      if isinstance(remove_background_param, list):
          flags = []
          for idx in range(n):
              if idx < len(remove_background_param):
                  flags.append(bool(remove_background_param[idx]))
              else:
                  flags.append(False)
          return flags
      return [False] * n
  \<close>
  The loop over \<open>range(n)\<close> appends one flag per index, so it is a map over
  \<open>[0..<n]\<close>. The first argument is whatever the job carried under
  \<open>image_paths\<close>; \<open>len\<close> fails on a value that has no length.
\<close>

definition bool_flags_for_images :: "pyval \<Rightarrow> pyval \<Rightarrow> py_exn + bool list" where
  "bool_flags_for_images image_paths remove_background_param =
     (case py_len image_paths of
        Inl e \<Rightarrow> Inl e
      | Inr n \<Rightarrow>
          Inr (case remove_background_param of
                 PNone \<Rightarrow> replicate n False
               | PBool b \<Rightarrow> replicate n b
               | PList l \<Rightarrow>
                   map (\<lambda>idx. if idx < length l then py_truthy (l ! idx) else False) [0..<n]
               | _ \<Rightarrow> replicate n False))"

section \<open>Builtins whose result depends on the Python runtime\<close>

text \<open>
  The handler code calls into the Python runtime and into third-party libraries
  (urllib, requests, PIL, rembg, diffusers, torch, os). They are parameters of the
  model, collected in one environment: pure functions where the library call is pure,
  functions on an abstract world \<open>'w\<close> where it reads or writes the file system, the
  network or a device. \<open>'i\<close> is a decoded image, \<open>'s\<close> a rembg session, \<open>'p\<close> a loaded
  pipeline. Every one of them may raise.
\<close>

record parse_result =
  url_scheme :: string
  url_path :: string

record ('w, 'i, 's, 'p) env =
  builtin_str :: "pyval \<Rightarrow> string"
  builtin_int :: "pyval \<Rightarrow> py_exn + int"
  builtin_float :: "pyval \<Rightarrow> py_exn + pyfloat"
  bad_reference :: "pyval \<Rightarrow> py_exn"
  urlparse :: "string \<Rightarrow> py_exn + parse_result"
  requests_get :: "'w \<Rightarrow> string \<Rightarrow> nat \<Rightarrow> (py_exn + string) \<times> 'w"
  Image_open_bytes :: "string \<Rightarrow> py_exn + 'i"
  Image_open :: "'w \<Rightarrow> string \<Rightarrow> (py_exn + 'i) \<times> 'w"
  Image_convert :: "'i \<Rightarrow> string \<Rightarrow> py_exn + 'i"
  Image_save :: "'w \<Rightarrow> 'i \<Rightarrow> string \<Rightarrow> (py_exn + unit) \<times> 'w"
  Image_save_png :: "'i \<Rightarrow> py_exn + string"
  b64encode :: "string \<Rightarrow> string"
  makedirs :: "'w \<Rightarrow> string \<Rightarrow> (py_exn + unit) \<times> 'w"
  new_session :: "'w \<Rightarrow> (py_exn + 's) \<times> 'w"
  rembg_remove :: "'w \<Rightarrow> 'i \<Rightarrow> 's \<Rightarrow> (py_exn + 'i) \<times> 'w"
  cuda_is_available :: "'w \<Rightarrow> bool"
  from_pretrained :: "'w \<Rightarrow> string \<Rightarrow> (py_exn + 'p) \<times> 'w"
  pipeline_to :: "'w \<Rightarrow> 'p \<Rightarrow> string \<Rightarrow> (py_exn + unit) \<times> 'w"
  pipeline_call ::
    "'w \<Rightarrow> 'p \<Rightarrow> pyval \<Rightarrow> 'i list \<Rightarrow> int \<Rightarrow> int \<Rightarrow> pyfloat \<Rightarrow> int \<Rightarrow> (py_exn + 'i list) \<times> 'w"

text \<open>
  \<^item> \<open>builtin_str\<close>, \<open>builtin_int\<close>, \<open>builtin_float\<close>: \<open>str(v)\<close>, \<open>int(v)\<close> and \<open>float(v)\<close>
    on the values for which the functions \<open>py_str\<close>, \<open>py_int\<close> and \<open>py_float\<close> below do
    not fix the result (float rendering, number parsing, the errors and their texts).
  \<^item> \<open>bad_reference v\<close>: what \<open>urlparse\<close> and \<open>Image.open\<close> raise when the image
    reference \<open>v\<close> is not a str (both reject it before anything is read).
  \<^item> \<open>requests_get w url t\<close>: \<open>requests.get(url, timeout=t)\<close> followed by
    \<open>raise_for_status()\<close>, giving \<open>response.content\<close>.
  \<^item> \<open>Image_open_bytes b\<close>: \<open>Image.open(BytesIO(b))\<close>; \<open>Image_open w p\<close>: \<open>Image.open(p)\<close> on
    a path; \<open>Image_convert i m\<close>: \<open>i.convert(m)\<close>; \<open>Image_save w i p\<close>: \<open>i.save(p)\<close>;
    \<open>Image_save_png i\<close>: the bytes that \<open>i.save(buffer, format="PNG")\<close> leaves in the buffer.
  \<^item> \<open>makedirs w d\<close>: \<open>os.makedirs(d, exist_ok=True)\<close>.
  \<^item> \<open>from_pretrained w dtype\<close>: \<open>Flux2KleinPipeline.from_pretrained\<close> on the model
    directory; \<open>pipeline_to w p device\<close>: \<open>p.to(device)\<close>; \<open>pipeline_call\<close>: the call of the
    pipeline, giving the \<open>images\<close> of its output.
\<close>

definition py_str :: "('w, 'i, 's, 'p) env \<Rightarrow> pyval \<Rightarrow> string" where
  "py_str env v =
     (case v of
        PStr s \<Rightarrow> s
      | PNone \<Rightarrow> ''None''
      | PBool b \<Rightarrow> (if b then ''True'' else ''False'')
      | PInt i \<Rightarrow> str_int i
      | _ \<Rightarrow> builtin_str env v)"

definition py_int :: "('w, 'i, 's, 'p) env \<Rightarrow> pyval \<Rightarrow> py_exn + int" where
  "py_int env v =
     (case v of
        PInt i \<Rightarrow> Inr i
      | PBool b \<Rightarrow> Inr (if b then 1 else 0)
      | _ \<Rightarrow> builtin_int env v)"

definition py_float :: "('w, 'i, 's, 'p) env \<Rightarrow> pyval \<Rightarrow> py_exn + pyfloat" where
  "py_float env v = (case v of PFloat f \<Rightarrow> Inr f | _ \<Rightarrow> builtin_float env v)"

text \<open>\<open>d.get(k, default)\<close>; \<open>d.get(k)\<close> is \<open>dict_get d k PNone\<close>.\<close>

definition dict_get :: "(string \<times> pyval) list \<Rightarrow> string \<Rightarrow> pyval \<Rightarrow> pyval" where
  "dict_get d k dflt = (case map_of d k of None \<Rightarrow> dflt | Some v \<Rightarrow> v)"

section \<open>Paths and strings (posixpath, str)\<close>

text \<open>\<open>os.path.basename(p)\<close>: what follows the last slash.\<close>

definition os_path_basename :: "string \<Rightarrow> string" where
  "os_path_basename p = rev (takeWhile (\<lambda>c. c \<noteq> CHR ''/'') (rev p))"

text \<open>
  \<open>os.path.dirname(p)\<close>: what precedes the basename, without its trailing slashes
  unless it consists of slashes only.
\<close>

definition os_path_dirname :: "string \<Rightarrow> string" where
  "os_path_dirname p =
     (let head = rev (dropWhile (\<lambda>c. c \<noteq> CHR ''/'') (rev p))
      in if head \<noteq> [] \<and> head \<noteq> replicate (length head) (CHR ''/'')
         then rev (dropWhile (\<lambda>c. c = CHR ''/'') (rev head))
         else head)"

text \<open>
  \<open>os.path.join(a, b)\<close>: an absolute \<open>b\<close> replaces \<open>a\<close>; otherwise \<open>b\<close> is appended,
  after a slash unless \<open>a\<close> is empty or ends in one. \<open>os.path.join(a, b, c)\<close> is
  \<open>os_path_join (os_path_join a b) c\<close>.
\<close>

definition os_path_join :: "string \<Rightarrow> string \<Rightarrow> string" where
  "os_path_join a b =
     (if b \<noteq> [] \<and> hd b = CHR ''/'' then b
      else if a = [] \<or> last a = CHR ''/'' then a @ b
      else a @ ''/'' @ b)"

text \<open>
  \<open>os.path.splitext(p)\<close>: the split at the last dot of the basename, provided some
  character of the basename before that dot is not a dot; otherwise \<open>(p, "")\<close>.
\<close>

definition os_path_splitext :: "string \<Rightarrow> string \<times> string" where
  "os_path_splitext p =
     (let name = os_path_basename p;
          dir = take (length p - length name) p;
          ext = rev (takeWhile (\<lambda>c. c \<noteq> CHR ''.'') (rev name));
          root = take (length name - length ext - 1) name
      in if CHR ''.'' \<in> set name \<and> list_ex (\<lambda>c. c \<noteq> CHR ''.'') root
         then (dir @ root, CHR ''.'' # ext)
         else (p, []))"

text \<open>\<open>s.endswith(suf)\<close>.\<close>

definition endswith :: "string \<Rightarrow> string \<Rightarrow> bool" where
  "endswith s suf = (take (length suf) (rev s) = rev suf)"

section \<open>Programs: state, exceptions, calls to the outside\<close>

text \<open>
  The process state: the world the libraries act on, the two module-level singletons
  (\<open>_BG_REMOVAL_SESSION\<close> of remover.py and \<open>_PIPELINE\<close> of infer.py), and the log of the
  calls made to the outside, in order. The log is a ghost field: the code never reads it;
  it is what "never invoked" is stated on.
\<close>

datatype 'i ext_call =
    RequestsGet string
  | ImageOpen string
  | ImageSave 'i string
  | Makedirs string
  | NewSession
  | RembgRemove 'i
  | FromPretrained string
  | PipelineTo string
  | PipelineCall pyval "'i list" int int pyfloat int

record ('w, 'i, 's, 'p) state =
  world :: 'w
  BG_REMOVAL_SESSION :: "'s option"
  PIPELINE :: "'p option"
  calls :: "'i ext_call list"

text \<open>
  A program takes the state and either raises (\<open>Inl\<close>) or returns (\<open>Inr\<close>), with the
  state it leaves behind.
\<close>

type_synonym ('a, 'st) prog = "'st \<Rightarrow> (py_exn + 'a) \<times> 'st"

definition ret :: "'a \<Rightarrow> ('a, 'st) prog" where
  "ret x = (\<lambda>s. (Inr x, s))"

definition raise :: "py_exn \<Rightarrow> ('a, 'st) prog" where
  "raise e = (\<lambda>s. (Inl e, s))"

text \<open>A pure step that may raise.\<close>

definition of_result :: "py_exn + 'a \<Rightarrow> ('a, 'st) prog" where
  "of_result r = (\<lambda>s. (r, s))"

text \<open>Sequencing: an exception of the first part skips the rest.\<close>

definition then_do :: "('a, 'st) prog \<Rightarrow> ('a \<Rightarrow> ('b, 'st) prog) \<Rightarrow> ('b, 'st) prog" where
  "then_do m f = (\<lambda>s. case m s of (Inl e, s') \<Rightarrow> (Inl e, s') | (Inr x, s') \<Rightarrow> f x s')"

text \<open>\<open>try: body  except Exception as exc: handler\<close>.\<close>

definition try_except :: "('a, 'st) prog \<Rightarrow> (py_exn \<Rightarrow> ('a, 'st) prog) \<Rightarrow> ('a, 'st) prog" where
  "try_except body handle_exc =
     (\<lambda>s. case body s of (Inl e, s') \<Rightarrow> handle_exc e s' | (Inr x, s') \<Rightarrow> (Inr x, s'))"

text \<open>A call to the outside: it acts on the world and is appended to the log.\<close>

definition extern ::
  "'i ext_call \<Rightarrow> ('w \<Rightarrow> (py_exn + 'a) \<times> 'w) \<Rightarrow> ('a, ('w, 'i, 's, 'p) state) prog" where
  "extern c f =
     (\<lambda>s. case f (world s) of (r, w') \<Rightarrow> (r, s\<lparr>world := w', calls := calls s @ [c]\<rparr>))"

section \<open>Background removal (bg_removal/remover.py)\<close>

text \<open>
  \<^verbatim>\<open>
  def _get_session():
      global _BG_REMOVAL_SESSION
      if _BG_REMOVAL_SESSION is None:
          _BG_REMOVAL_SESSION = new_session()
      return _BG_REMOVAL_SESSION
  \<close>
\<close>

definition get_session ::
  "('w, 'i, 's, 'p) env \<Rightarrow> ('s, ('w, 'i, 's, 'p) state) prog" where
  "get_session env =
     (\<lambda>s. case BG_REMOVAL_SESSION s of
        Some session \<Rightarrow> (Inr session, s)
      | None \<Rightarrow>
          then_do (extern NewSession (new_session env))
            (\<lambda>session s'. (Inr session, s'\<lparr>BG_REMOVAL_SESSION := Some session\<rparr>)) s)"

text \<open>
  The file name generated when no output path is given (lines 60 to 72 of
  \<open>remove_background\<close>):
  \<^verbatim>\<open>
  if parsed.scheme in ("http", "https"):
      base_name = os.path.basename(parsed.path) or "image"
      if "." not in base_name:
          base_name += ".png"
  else:
      base_name = os.path.basename(image_path_or_url)
      if "." not in base_name:
          base_name += ".png"
  if not base_name.endswith(".png"):
      base_name = os.path.splitext(base_name)[0] + ".png"
  \<close>
\<close>

definition generated_base_name :: "parse_result \<Rightarrow> string \<Rightarrow> string" where
  "generated_base_name parsed image_path_or_url =
     (let base_name =
            (if url_scheme parsed = ''http'' \<or> url_scheme parsed = ''https''
             then (let base_name =
                         (if os_path_basename (url_path parsed) \<noteq> []
                          then os_path_basename (url_path parsed) else ''image'')
                   in if CHR ''.'' \<notin> set base_name then base_name @ ''.png'' else base_name)
             else (let base_name = os_path_basename image_path_or_url
                   in if CHR ''.'' \<notin> set base_name then base_name @ ''.png'' else base_name))
      in if \<not> endswith base_name ''.png''
         then fst (os_path_splitext base_name) @ ''.png''
         else base_name)"

text \<open>
  \<open>remove_background(image_path_or_url, output_path=None, output_dir="outputs/bg_removed")\<close>:
  load the image (fetched from the URL, or opened from the path) as RGB, remove its
  background with the cached session, determine the output path, create its directory,
  save the result there and return the path. A reference that is not a str is rejected
  by \<open>urlparse\<close> or by \<open>Image.open\<close> before anything is read.
\<close>

definition remove_background ::
  "('w, 'i, 's, 'p) env \<Rightarrow> pyval \<Rightarrow> string option \<Rightarrow> string
     \<Rightarrow> (string, ('w, 'i, 's, 'p) state) prog" where
  "remove_background env image_path_or_url output_path output_dir =
     (case image_path_or_url of
        PStr ref \<Rightarrow>
          then_do (of_result (urlparse env ref)) (\<lambda>parsed.
          then_do
            (if url_scheme parsed = ''http'' \<or> url_scheme parsed = ''https''
             then then_do (extern (RequestsGet ref) (\<lambda>w. requests_get env w ref 30)) (\<lambda>content.
                  then_do (of_result (Image_open_bytes env content)) (\<lambda>img.
                  of_result (Image_convert env img ''RGB'')))
             else then_do (extern (ImageOpen ref) (\<lambda>w. Image_open env w ref)) (\<lambda>img.
                  of_result (Image_convert env img ''RGB''))) (\<lambda>input_image.
          then_do (get_session env) (\<lambda>session.
          then_do (extern (RembgRemove input_image)
                     (\<lambda>w. rembg_remove env w input_image session)) (\<lambda>output_image.
          then_do
            (case output_path of
               None \<Rightarrow>
                 then_do (extern (Makedirs output_dir) (\<lambda>w. makedirs env w output_dir)) (\<lambda>_.
                 ret (os_path_join output_dir (generated_base_name parsed ref)))
             | Some given \<Rightarrow> ret given) (\<lambda>out_path.
          then_do
            (let dir = (if os_path_dirname out_path \<noteq> [] then os_path_dirname out_path else ''.'')
             in extern (Makedirs dir) (\<lambda>w. makedirs env w dir)) (\<lambda>_.
          then_do (extern (ImageSave output_image out_path)
                     (\<lambda>w. Image_save env w output_image out_path)) (\<lambda>_.
          ret out_path)))))))
      | _ \<Rightarrow> raise (bad_reference env image_path_or_url))"

section \<open>Generation (infer.py)\<close>

text \<open>
  \<^verbatim>\<open>
  def _load_pipeline():
      global _PIPELINE
      if _PIPELINE is None:
          device = _get_device()
          dtype = torch.bfloat16 if device == "cuda" else torch.float16
          _PIPELINE = Flux2KleinPipeline.from_pretrained(str(model_path), torch_dtype=dtype)
          _PIPELINE.to(device)
      return _PIPELINE
  \<close>
\<close>

definition get_device :: "('w, 'i, 's, 'p) env \<Rightarrow> ('w, 'i, 's, 'p) state \<Rightarrow> string" where
  "get_device env s = (if cuda_is_available env (world s) then ''cuda'' else ''cpu'')"

definition load_pipeline ::
  "('w, 'i, 's, 'p) env \<Rightarrow> ('p, ('w, 'i, 's, 'p) state) prog" where
  "load_pipeline env =
     (\<lambda>s. case PIPELINE s of
        Some pipe \<Rightarrow> (Inr pipe, s)
      | None \<Rightarrow>
          (let device = get_device env s;
               dtype = (if device = ''cuda'' then ''bfloat16'' else ''float16'')
           in then_do (extern (FromPretrained dtype) (\<lambda>w. from_pretrained env w dtype))
                (\<lambda>pipe s'.
                   then_do (extern (PipelineTo device) (\<lambda>w. pipeline_to env w pipe device))
                     (\<lambda>_. ret pipe) (s'\<lparr>PIPELINE := Some pipe\<rparr>)) s))"

text \<open>
  \<open>_load_image(path_or_url)\<close>: fetched or opened as in \<open>remove_background\<close>, converted to
  RGB.
\<close>

definition load_image ::
  "('w, 'i, 's, 'p) env \<Rightarrow> pyval \<Rightarrow> ('i, ('w, 'i, 's, 'p) state) prog" where
  "load_image env path_or_url =
     (case path_or_url of
        PStr ref \<Rightarrow>
          then_do (of_result (urlparse env ref)) (\<lambda>parsed.
            if url_scheme parsed = ''http'' \<or> url_scheme parsed = ''https''
            then then_do (extern (RequestsGet ref) (\<lambda>w. requests_get env w ref 30)) (\<lambda>content.
                 then_do (of_result (Image_open_bytes env content)) (\<lambda>img.
                 of_result (Image_convert env img ''RGB'')))
            else then_do (extern (ImageOpen ref) (\<lambda>w. Image_open env w ref)) (\<lambda>img.
                 of_result (Image_convert env img ''RGB'')))
      | _ \<Rightarrow> raise (bad_reference env path_or_url))"

text \<open>The loop \<open>for path in image_paths: images.append(_load_image(path))\<close>.\<close>

fun load_images ::
  "('w, 'i, 's, 'p) env \<Rightarrow> pyval list \<Rightarrow> ('i list, ('w, 'i, 's, 'p) state) prog" where
  "load_images env [] = ret []"
| "load_images env (path # rest) =
     then_do (load_image env path) (\<lambda>img.
     then_do (load_images env rest) (\<lambda>images.
     ret (img # images)))"

text \<open>
  \<open>run_inference(prompt, image_paths, height, width, guidance_scale, num_inference_steps)\<close>:
  load the pipeline, load every image in order, call the pipeline, take the first
  image of its output and return it as base64 of its PNG bytes.
\<close>

definition run_inference ::
  "('w, 'i, 's, 'p) env \<Rightarrow> pyval \<Rightarrow> pyval list \<Rightarrow> int \<Rightarrow> int \<Rightarrow> pyfloat \<Rightarrow> int
     \<Rightarrow> (string, ('w, 'i, 's, 'p) state) prog" where
  "run_inference env prompt image_paths height width guidance_scale num_inference_steps =
     then_do (load_pipeline env) (\<lambda>pipe.
     then_do (load_images env image_paths) (\<lambda>images.
     then_do (extern (PipelineCall prompt images height width guidance_scale num_inference_steps)
                (\<lambda>w. pipeline_call env w pipe prompt images height width guidance_scale
                        num_inference_steps)) (\<lambda>out_images.
     then_do (case out_images of
                [] \<Rightarrow> raise (PyExn ''IndexError'' ''list index out of range'')
              | result # _ \<Rightarrow> ret result) (\<lambda>result.
     then_do (of_result (Image_save_png env result)) (\<lambda>image_bytes.
     ret (b64encode env image_bytes))))))"

section \<open>The queue handler (handler.py)\<close>

text \<open>The dict every branch of the handler returns.\<close>

record job_result =
  success :: bool
  image_base64 :: "string option"
  error_message :: "string option"

text \<open>
  \<^verbatim>\<open>
  def _encode_image_file_to_base64(path):
      with Image.open(path) as img:
          img = img.convert("RGB")
          buffer = BytesIO()
          img.save(buffer, format="PNG")
          buffer.seek(0)
          return base64.b64encode(buffer.getvalue()).decode("utf-8")
  \<close>
\<close>

definition encode_image_file_to_base64 ::
  "('w, 'i, 's, 'p) env \<Rightarrow> string \<Rightarrow> (string, ('w, 'i, 's, 'p) state) prog" where
  "encode_image_file_to_base64 env file_path =
     then_do (extern (ImageOpen file_path) (\<lambda>w. Image_open env w file_path)) (\<lambda>img.
     then_do (of_result (Image_convert env img ''RGB'')) (\<lambda>rgb.
     then_do (of_result (Image_save_png env rgb)) (\<lambda>png_bytes.
     ret (b64encode env png_bytes))))"

text \<open>
  The loop of \<open>_handle_infer\<close> over \<open>enumerate(image_paths)\<close>:
  \<^verbatim>\<open>
  for idx, path in enumerate(image_paths):
      if flags[idx]:
          output_path = os.path.join(tmp_dir, f"img_{idx}.png")
          processed_path = remove_background(path, output_path=output_path)
          processed_paths.append(processed_path)
      else:
          processed_paths.append(path)
  \<close>
  \<open>idx\<close> is the index of the head of the items still to visit.
\<close>

fun process_paths ::
  "('w, 'i, 's, 'p) env \<Rightarrow> string \<Rightarrow> bool list \<Rightarrow> nat \<Rightarrow> pyval list
     \<Rightarrow> (pyval list, ('w, 'i, 's, 'p) state) prog" where
  "process_paths env tmp_dir flags idx [] = ret []"
| "process_paths env tmp_dir flags idx (path # rest) =
     (if idx < length flags
      then then_do
             (if flags ! idx
              then then_do
                     (remove_background env path
                        (Some (os_path_join tmp_dir (''img_'' @ str_nat idx @ ''.png'')))
                        ''outputs/bg_removed'') (\<lambda>processed_path.
                   ret (PStr processed_path))
              else ret path) (\<lambda>processed.
           then_do (process_paths env tmp_dir flags (Suc idx) rest) (\<lambda>processed_paths.
           ret (processed # processed_paths)))
      else raise (PyExn ''IndexError'' ''list index out of range''))"

text \<open>
  \<open>_handle_infer(job_input, job_id)\<close>. The validation comes first; the numeric
  parameters, the flags, the temporary directory and the loop over the images follow,
  all of them before the \<open>try\<close>; only \<open>run_inference\<close> stands inside it.
\<close>

definition handle_infer ::
  "('w, 'i, 's, 'p) env \<Rightarrow> (string \<times> pyval) list \<Rightarrow> string
     \<Rightarrow> (job_result, ('w, 'i, 's, 'p) state) prog" where
  "handle_infer env job_input job_id =
     (let prompt = dict_get job_input ''prompt'' PNone;
          image_paths = dict_get job_input ''image_paths'' PNone
      in if \<not> py_truthy prompt \<or> \<not> py_truthy image_paths
         then ret \<lparr>success = False, image_base64 = None,
                   error_message =
                     Some ''Both 'prompt' and 'image_paths' are required for infer task.''\<rparr>
         else
           then_do (of_result (py_int env (dict_get job_input ''height'' (PInt 1024)))) (\<lambda>height.
           then_do (of_result (py_int env (dict_get job_input ''width'' (PInt 1024)))) (\<lambda>width.
           then_do (of_result (py_float env
                      (dict_get job_input ''guidance_scale'' (PFloat (Finite 1))))) (\<lambda>guidance_scale.
           then_do (of_result (py_int env
                      (dict_get job_input ''num_inference_steps'' (PInt 10)))) (\<lambda>num_inference_steps.
           then_do (of_result (bool_flags_for_images image_paths
                      (dict_get job_input ''remove_background'' PNone))) (\<lambda>flags.
           (let tmp_dir = os_path_join (os_path_join ''/tmp'' ''bg_removed'') job_id in
           then_do (extern (Makedirs tmp_dir) (\<lambda>w. makedirs env w tmp_dir)) (\<lambda>_.
           then_do (of_result (py_iter image_paths)) (\<lambda>items.
           then_do (process_paths env tmp_dir flags 0 items) (\<lambda>processed_paths.
           try_except
             (then_do (run_inference env prompt processed_paths height width guidance_scale
                         num_inference_steps) (\<lambda>b64.
              ret \<lparr>success = True, image_base64 = Some b64, error_message = None\<rparr>))
             (\<lambda>exc. ret \<lparr>success = False, image_base64 = None,
                           error_message = Some (exc_str exc)\<rparr>)))))))))))"

text \<open>
  \<open>_handle_remove_background(job_input, job_id)\<close>: here the removal and the encoding
  both stand inside the \<open>try\<close>.
\<close>

definition handle_remove_background ::
  "('w, 'i, 's, 'p) env \<Rightarrow> (string \<times> pyval) list \<Rightarrow> string
     \<Rightarrow> (job_result, ('w, 'i, 's, 'p) state) prog" where
  "handle_remove_background env job_input job_id =
     (let image_path = dict_get job_input ''image_path'' PNone
      in if \<not> py_truthy image_path
         then ret \<lparr>success = False, image_base64 = None,
                   error_message =
                     Some ([CHR 0x27] @ ''image_path' is required for remove_background task.'')\<rparr>
         else
           (let tmp_dir = os_path_join (os_path_join ''/tmp'' ''bg_removed'') job_id in
           then_do (extern (Makedirs tmp_dir) (\<lambda>w. makedirs env w tmp_dir)) (\<lambda>_.
           (let output_path = os_path_join tmp_dir ''removed.png'' in
           try_except
             (then_do (remove_background env image_path (Some output_path)
                         ''outputs/bg_removed'') (\<lambda>processed_path.
              then_do (encode_image_file_to_base64 env processed_path) (\<lambda>b64.
              ret \<lparr>success = True, image_base64 = Some b64, error_message = None\<rparr>)))
             (\<lambda>exc. ret \<lparr>success = False, image_base64 = None,
                           error_message = Some (exc_str exc)\<rparr>)))))"

text \<open>
  \<^verbatim>\<open>
  def handler(event, context=None):
      job_id = str(event.get("id", "unknown"))
      job_input = event.get("input") or {}
      task_type = job_input.get("task_type", "infer")
      if task_type == "infer":
          return _handle_infer(job_input, job_id)
      if task_type == "remove_background":
          return _handle_remove_background(job_input, job_id)
      return {"success": False, "image_base64": None,
              "error_message": f"Unknown task_type: {task_type}"}
  \<close>
  The event is a dict; \<open>job_input_of\<close> is \<open>event.get("input") or {}\<close>. An \<open>input\<close> that
  is truthy and not a dict has no \<open>get\<close>.
\<close>

definition job_input_of :: "(string \<times> pyval) list \<Rightarrow> pyval" where
  "job_input_of event =
     (if py_truthy (dict_get event ''input'' PNone)
      then dict_get event ''input'' PNone else PDict [])"

definition handler ::
  "('w, 'i, 's, 'p) env \<Rightarrow> (string \<times> pyval) list
     \<Rightarrow> (job_result, ('w, 'i, 's, 'p) state) prog" where
  "handler env event =
     (let job_id = py_str env (dict_get event ''id'' (PStr ''unknown''));
          job_input = job_input_of event
      in case job_input of
           PDict d \<Rightarrow>
             (let task_type = dict_get d ''task_type'' (PStr ''infer'')
              in if task_type = PStr ''infer'' then handle_infer env d job_id
                 else if task_type = PStr ''remove_background''
                      then handle_remove_background env d job_id
                 else ret \<lparr>success = False, image_base64 = None,
                           error_message =
                             Some (''Unknown task_type: '' @ py_str env task_type)\<rparr>)
         | _ \<Rightarrow>
             raise (PyExn ''AttributeError''
                      ([CHR 0x27] @ type_name job_input @ [CHR 0x27]
                        @ '' object has no attribute 'get'' @ [CHR 0x27])))"

section \<open>The HTTP surface (main.py, models.py, bg_removal/models.py)\<close>

text \<open>
  The request models, with their fields as declared, and the two endpoint functions.
  \<open>InferenceRequest\<close> declares \<open>image_paths\<close> with \<open>Field(..., min_items=1, max_items=4)\<close>;
  checking a request body against that declaration is the web framework's work, done
  before it calls the endpoint function, and is not part of this model: the endpoint
  functions are modelled on every request value. \<open>InferenceResponse\<close> has the fields of
  \<open>job_result\<close>.
\<close>

record InferenceRequest =
  req_prompt :: string
  req_image_paths :: "string list"
  req_height :: int
  req_width :: int
  req_guidance_scale :: pyfloat
  req_num_inference_steps :: int

record BackgroundRemovalRequest =
  req_image_path :: string
  req_output_path :: "string option"

record BackgroundRemovalResponse =
  removal_success :: bool
  removal_output_path :: "string option"
  removal_error_message :: "string option"

text \<open>
  \<^verbatim>\<open>
  async def infer(request):
      try:
          image_base64 = run_inference(prompt=request.prompt, image_paths=request.image_paths,
              height=request.height, width=request.width,
              guidance_scale=request.guidance_scale,
              num_inference_steps=request.num_inference_steps)
          return InferenceResponse(success=True, image_base64=image_base64, error_message=None)
      except Exception as exc:
          return InferenceResponse(success=False, image_base64=None, error_message=str(exc))
  \<close>
\<close>

definition infer ::
  "('w, 'i, 's, 'p) env \<Rightarrow> InferenceRequest \<Rightarrow> (job_result, ('w, 'i, 's, 'p) state) prog" where
  "infer env request =
     try_except
       (then_do (run_inference env (PStr (req_prompt request))
                   (map PStr (req_image_paths request)) (req_height request) (req_width request)
                   (req_guidance_scale request) (req_num_inference_steps request)) (\<lambda>b64.
        ret \<lparr>success = True, image_base64 = Some b64, error_message = None\<rparr>))
       (\<lambda>exc. ret \<lparr>success = False, image_base64 = None, error_message = Some (exc_str exc)\<rparr>)"

text \<open>
  \<open>remove_bg(request)\<close>: \<open>remove_background\<close> on the request's path and optional output
  path, inside the same \<open>try\<close>/\<open>except\<close>.
\<close>

definition remove_bg ::
  "('w, 'i, 's, 'p) env \<Rightarrow> BackgroundRemovalRequest
     \<Rightarrow> (BackgroundRemovalResponse, ('w, 'i, 's, 'p) state) prog" where
  "remove_bg env request =
     try_except
       (then_do (remove_background env (PStr (req_image_path request)) (req_output_path request)
                   ''outputs/bg_removed'') (\<lambda>output_path.
        ret \<lparr>removal_success = True, removal_output_path = Some output_path,
             removal_error_message = None\<rparr>))
       (\<lambda>exc. ret \<lparr>removal_success = False, removal_output_path = None,
                     removal_error_message = Some (exc_str exc)\<rparr>)"

section \<open>What the specification says of results and file names\<close>

text \<open>
  "Exactly one of (payload, error) is populated, governed by the success flag": with
  success the payload is set and the error is null, without it the payload is null and
  the error is set.
\<close>

definition exactly_one_populated :: "bool \<Rightarrow> 'a option \<Rightarrow> 'b option \<Rightarrow> bool" where
  "exactly_one_populated ok payload err =
     (if ok then payload \<noteq> None \<and> err = None else payload = None \<and> err \<noteq> None)"

text \<open>
  The file name of section 4.5, in the specification's words: take the basename, or
  "image" if it is empty, and force a ".png" extension whatever the original one was
  (a name that already ends in ".png" is kept, any other has its extension, if it has
  one, replaced). The basename of a reference is that of the URL's path for an
  http/https URL and that of the reference itself for a local path.
\<close>

definition is_url :: "parse_result \<Rightarrow> bool" where
  "is_url parsed = (url_scheme parsed = ''http'' \<or> url_scheme parsed = ''https'')"

definition reference_basename :: "parse_result \<Rightarrow> string \<Rightarrow> string" where
  "reference_basename parsed ref =
     (if is_url parsed then os_path_basename (url_path parsed) else os_path_basename ref)"

definition spec_file_name :: "string \<Rightarrow> string" where
  "spec_file_name base =
     (let name = (if base = [] then ''image'' else base)
      in if endswith name ''.png'' then name else fst (os_path_splitext name) @ ''.png'')"

section \<open>What the file system guarantees of the loader\<close>

text \<open>
  \<open>Image.open\<close> on a path opens the file with \<open>open(path, "rb")\<close>. No file has an empty
  name: on the empty path and on a path that ends in a slash, that is on every path
  whose basename is empty, \<open>open\<close> raises (\<open>FileNotFoundError\<close>, \<open>IsADirectoryError\<close> or
  \<open>NotADirectoryError\<close>), whatever the disk holds. An environment whose loader does so:
\<close>

definition loader_rejects_empty_basename :: "('w, 'i, 's, 'p) env \<Rightarrow> bool" where
  "loader_rejects_empty_basename env =
     (\<forall>w file_path. os_path_basename file_path = [] \<longrightarrow>
        (\<exists>e w'. Image_open env w file_path = (Inl e, w')))"

section \<open>An example environment\<close>

text \<open>
  A small world for running the model on concrete jobs: the world is the list of image
  files on disk, an image is a label, and the models always answer. Opening a path
  that is not on disk, or the empty path, or a path that ends in a slash, raises
  \<open>FileNotFoundError\<close>; saving puts the path on disk.
  \<open>urlparse\<close> is cut down to what the examples need: the scheme \<open>http\<close> with the path
  after the host, or no scheme and the reference as path.
\<close>

definition example_urlparse :: "string \<Rightarrow> py_exn + parse_result" where
  "example_urlparse ref =
     (if take 7 ref = ''http://''
      then Inr \<lparr>url_scheme = ''http'',
                url_path = dropWhile (\<lambda>c. c \<noteq> CHR ''/'') (drop 7 ref)\<rparr>
      else Inr \<lparr>url_scheme = [], url_path = ref\<rparr>)"

definition example_env :: "(string list, string, unit, unit) env" where
  "example_env =
     \<lparr>builtin_str = (\<lambda>v. ''<'' @ type_name v @ ''>''),
      builtin_int = (\<lambda>v. Inl (PyExn ''TypeError'' (''int() argument: '' @ type_name v))),
      builtin_float = (\<lambda>v. Inl (PyExn ''TypeError'' (''float() argument: '' @ type_name v))),
      bad_reference = (\<lambda>v. PyExn ''AttributeError'' (''not a str: '' @ type_name v)),
      urlparse = example_urlparse,
      requests_get = (\<lambda>w url t. (Inr (''bytes of '' @ url), w)),
      Image_open_bytes = (\<lambda>b. Inr (''image from '' @ b)),
      Image_open =
        (\<lambda>w p. if p \<noteq> [] \<and> last p \<noteq> CHR ''/'' \<and> p \<in> set w
                then (Inr (''image '' @ p), w)
                else (Inl (PyExn ''FileNotFoundError'' (''No such file or directory: '' @ p)), w)),
      Image_convert = (\<lambda>i m. Inr (i @ '' as '' @ m)),
      Image_save = (\<lambda>w i p. (Inr (), p # w)),
      Image_save_png = (\<lambda>i. Inr (''PNG of '' @ i)),
      b64encode = (\<lambda>b. ''base64 of '' @ b),
      makedirs = (\<lambda>w d. (Inr (), w)),
      new_session = (\<lambda>w. (Inr (), w)),
      rembg_remove = (\<lambda>w i s. (Inr (''cutout of '' @ i), w)),
      cuda_is_available = (\<lambda>w. False),
      from_pretrained = (\<lambda>w dtype. (Inr (), w)),
      pipeline_to = (\<lambda>w p device. (Inr (), w)),
      pipeline_call = (\<lambda>w p prompt images h wd g n. (Inr [''generated''], w))\<rparr>"

text \<open>The state of a fresh process over the files \<open>fs\<close>.\<close>

definition fresh :: "string list \<Rightarrow> (string list, string, unit, unit) state" where
  "fresh fs = \<lparr>world = fs, BG_REMOVAL_SESSION = None, PIPELINE = None, calls = []\<rparr>"

section \<open>Running programs\<close>

lemma ret_apply [simp]: "ret x s = (Inr x, s)"
  by (simp add: ret_def)

lemma raise_apply [simp]: "raise e s = (Inl e, s)"
  by (simp add: raise_def)

lemma of_result_apply [simp]: "of_result r s = (r, s)"
  by (simp add: of_result_def)

lemma then_do_returnsD:
  "then_do m f s = (Inr y, s') \<Longrightarrow> \<exists>x s1. m s = (Inr x, s1) \<and> f x s1 = (Inr y, s')"
  by (auto simp add: then_do_def split: prod.splits sum.splits)

lemma try_except_returnsD:
  "try_except body h s = (Inr r, s') \<Longrightarrow>
     body s = (Inr r, s') \<or> (\<exists>e s1. body s = (Inl e, s1) \<and> h e s1 = (Inr r, s'))"
  by (auto simp add: try_except_def split: prod.splits sum.splits)

lemma try_except_ret:
  "try_except (then_do m (\<lambda>b. ret (ok b))) (\<lambda>exc. ret (bad exc)) s =
     (case m s of (Inl e, s') \<Rightarrow> (Inr (bad e), s') | (Inr b, s') \<Rightarrow> (Inr (ok b), s'))"
  by (simp add: try_except_def then_do_def split: prod.splits sum.splits)

lemma guarded_returns:
  assumes "try_except (then_do m (\<lambda>b. ret (ok b))) (\<lambda>exc. ret (bad exc)) s = (Inr r, s')"
  shows "(\<exists>b. r = ok b) \<or> (\<exists>e. r = bad e)"
  using assms by (auto simp add: try_except_ret split: prod.splits sum.splits)

lemma extern_returnsD:
  "extern c f s = (Inr x, s') \<Longrightarrow>
     \<exists>w'. f (world s) = (Inr x, w') \<and> s' = s\<lparr>world := w', calls := calls s @ [c]\<rparr>"
  by (auto simp add: extern_def split: prod.splits)

lemma returns_with_final_state:
  "fst outcome = Inr x \<Longrightarrow> outcome = (Inr x, snd outcome)"
  by (simp add: prod_eq_iff)

text \<open>The unfolding that runs the model on a concrete job in the example environment.\<close>

lemmas run_simps =
  handler_def job_input_of_def dict_get_def handle_infer_def handle_remove_background_def
  py_str_def py_int_def py_float_def bool_flags_for_images_def os_path_join_def
  os_path_dirname_def os_path_basename_def
  remove_background_def get_session_def load_pipeline_def get_device_def load_image_def
  run_inference_def encode_image_file_to_base64_def
  then_do_def try_except_def extern_def example_env_def example_urlparse_def fresh_def Let_def

section \<open>Properties of the flag resolver\<close>

lemma bool_flags_for_images_list:
  "bool_flags_for_images (PList imgs) sel =
     Inr (case sel of
            PNone \<Rightarrow> replicate (length imgs) False
          | PBool b \<Rightarrow> replicate (length imgs) b
          | PList l \<Rightarrow>
              map (\<lambda>idx. if idx < length l then py_truthy (l ! idx) else False) [0..<length imgs]
          | _ \<Rightarrow> replicate (length imgs) False)"
  by (simp add: bool_flags_for_images_def)

text \<open>
  C1. On a list of N image references the resolver never fails and returns exactly N
  flags: all false for an absent (None) selector, the selector itself N times for a
  single boolean, for a list the entry at position i where the list has one (a boolean
  entry is taken as it is) and false beyond its end, whether the list is shorter or
  longer than N, and all false for a selector of any other shape.
\<close>

theorem flags_total_and_shaped:
  "\<exists>flags. bool_flags_for_images (PList imgs) sel = Inr flags
     \<and> length flags = length imgs
     \<and> (sel = PNone \<longrightarrow> flags = replicate (length imgs) False)
     \<and> (\<forall>b. sel = PBool b \<longrightarrow> flags = replicate (length imgs) b)
     \<and> (\<forall>l. sel = PList l \<longrightarrow>
           (\<forall>i < length imgs.
              flags ! i = (if i < length l then py_truthy (l ! i) else False)))
     \<and> (\<forall>bs. sel = PList (map PBool bs) \<longrightarrow>
           (\<forall>i < length imgs. flags ! i = (if i < length bs then bs ! i else False)))
     \<and> ((\<forall>b. sel \<noteq> PBool b) \<and> (\<forall>l. sel \<noteq> PList l) \<longrightarrow>
           flags = replicate (length imgs) False)"
proof (cases sel)
  case (PList l)
  then show ?thesis
    by (simp add: bool_flags_for_images_list)
qed (simp_all add: bool_flags_for_images_list)

theorem flags_total_and_shaped_witness:
  "bool_flags_for_images (PList [PStr ''person.png'', PStr ''top.png'', PStr ''hat.png''])
     (PList [PBool True, PBool False]) = Inr [True, False, False]
   \<and> bool_flags_for_images (PList [PStr ''person.png'', PStr ''top.png'']) (PBool True)
       = Inr [True, True]"
  using flags_total_and_shaped
    [of "[PStr ''person.png'', PStr ''top.png'', PStr ''hat.png'']"
        "PList [PBool True, PBool False]"]
  by (simp add: bool_flags_for_images_list upt_rec)

text \<open>
  C9. A list selector may hold values that are not booleans: at every position
  below both N and the list's length the flag is the truthiness \<open>bool(selector[i])\<close> of
  the entry there (0 is false, 1 and a non-empty string are true); the list is not sent
  to the all-false fallback of the other shapes.
\<close>

theorem flags_coerce_list_entries:
  "i < min (length imgs) (length l) \<Longrightarrow>
     \<exists>flags. bool_flags_for_images (PList imgs) (PList l) = Inr flags
       \<and> length flags = length imgs
       \<and> flags ! i = py_truthy (l ! i)"
  by (simp add: bool_flags_for_images_list)

theorem flags_coerce_list_entries_witness:
  "bool_flags_for_images (PList [PStr ''a.png'', PStr ''b.png'', PStr ''c.png''])
     (PList [PInt 0, PInt 1, PStr ''yes'']) = Inr [False, True, True]"
proof -
  have "(1::nat) < min (length [PStr ''a.png'', PStr ''b.png'', PStr ''c.png''])
                       (length [PInt 0, PInt 1, PStr ''yes''])"
    by simp
  from flags_coerce_list_entries [OF this]
  show ?thesis
    by (simp add: bool_flags_for_images_list upt_rec)
qed

section \<open>Properties of the queue handler\<close>

lemma handler_on_dict:
  "job_input_of event = PDict d \<Longrightarrow>
     handler env event =
       (let job_id = py_str env (dict_get event ''id'' (PStr ''unknown''));
            task_type = dict_get d ''task_type'' (PStr ''infer'')
        in if task_type = PStr ''infer'' then handle_infer env d job_id
           else if task_type = PStr ''remove_background''
                then handle_remove_background env d job_id
           else ret \<lparr>success = False, image_base64 = None,
                     error_message = Some (''Unknown task_type: '' @ py_str env task_type)\<rparr>)"
  by (simp add: handler_def Let_def)

lemma handle_infer_invalid:
  "\<not> py_truthy (dict_get d ''prompt'' PNone) \<or> \<not> py_truthy (dict_get d ''image_paths'' PNone) \<Longrightarrow>
     handle_infer env d job_id s =
       (Inr \<lparr>success = False, image_base64 = None,
              error_message =
                Some ''Both 'prompt' and 'image_paths' are required for infer task.''\<rparr>, s)"
  by (auto simp add: handle_infer_def Let_def)

text \<open>
  C3. A generate job (task type omitted or "infer") whose prompt or whose image list
  is missing or empty (anything falsy, as \<open>not prompt\<close> and \<open>not image_paths\<close> test it)
  returns success=false with the message naming both required fields, and leaves the
  state as it found it: the log of outside calls is unchanged, so neither the generator
  nor the background remover nor the image loader has been invoked.
\<close>

theorem infer_job_fails_fast:
  assumes "job_input_of event = PDict d"
    and "dict_get d ''task_type'' (PStr ''infer'') = PStr ''infer''"
    and "\<not> py_truthy (dict_get d ''prompt'' PNone)
         \<or> \<not> py_truthy (dict_get d ''image_paths'' PNone)"
  shows "handler env event s =
           (Inr \<lparr>success = False, image_base64 = None,
                  error_message =
                    Some ''Both 'prompt' and 'image_paths' are required for infer task.''\<rparr>, s)
         \<and> calls (snd (handler env event s)) = calls s"
  using assms by (simp add: handler_on_dict handle_infer_invalid)

theorem infer_job_fails_fast_witness:
  "handler example_env
     [(''id'', PStr ''job-1''),
      (''input'', PDict [(''prompt'', PStr ''a red hat''), (''image_paths'', PList [])])]
     (fresh [''person.png''])
   = (Inr \<lparr>success = False, image_base64 = None,
            error_message =
              Some ''Both 'prompt' and 'image_paths' are required for infer task.''\<rparr>,
      fresh [''person.png''])
   \<and> handler example_env
       [(''id'', PStr ''job-1''),
        (''input'', PDict [(''task_type'', PStr ''infer''),
                          (''image_paths'', PList [PStr ''person.png''])])]
       (fresh [''person.png''])
     = (Inr \<lparr>success = False, image_base64 = None,
              error_message =
                Some ''Both 'prompt' and 'image_paths' are required for infer task.''\<rparr>,
        fresh [''person.png''])"
  using
    infer_job_fails_fast
      [of "[(''id'', PStr ''job-1''),
            (''input'', PDict [(''prompt'', PStr ''a red hat''), (''image_paths'', PList [])])]"
          "[(''prompt'', PStr ''a red hat''), (''image_paths'', PList [])]"
          example_env "fresh [''person.png'']"]
    infer_job_fails_fast
      [of "[(''id'', PStr ''job-1''),
            (''input'', PDict [(''task_type'', PStr ''infer''),
                              (''image_paths'', PList [PStr ''person.png''])])]"
          "[(''task_type'', PStr ''infer''), (''image_paths'', PList [PStr ''person.png''])]"
          example_env "fresh [''person.png'']"]
  by (simp add: job_input_of_def dict_get_def)

text \<open>
  C5. A job whose task_type is present and is neither "infer" nor
  "remove_background" makes the handler return, not raise: the result has
  success=false, no payload, and the message "Unknown task_type: " followed by the
  offending value as \<open>str\<close> renders it, so the message contains that value.
\<close>

theorem unknown_task_type_is_reported:
  assumes "job_input_of event = PDict d"
    and "map_of d ''task_type'' = Some t"
    and "t \<noteq> PStr ''infer''" and "t \<noteq> PStr ''remove_background''"
  shows "handler env event s =
           (Inr \<lparr>success = False, image_base64 = None,
                  error_message = Some (''Unknown task_type: '' @ py_str env t)\<rparr>, s)
         \<and> sublist (py_str env t) (''Unknown task_type: '' @ py_str env t)"
proof -
  have "dict_get d ''task_type'' (PStr ''infer'') = t"
    using assms(2) by (simp add: dict_get_def)
  moreover have "sublist (py_str env t) (''Unknown task_type: '' @ py_str env t @ [])"
    by (rule sublist_appendI)
  ultimately show ?thesis
    using assms by (simp add: handler_on_dict)
qed

theorem unknown_task_type_is_reported_witness:
  "handler example_env
     [(''id'', PStr ''job-9''),
      (''input'', PDict [(''task_type'', PStr ''upscale''), (''image_path'', PStr ''person.png'')])]
     (fresh [''person.png''])
   = (Inr \<lparr>success = False, image_base64 = None,
            error_message = Some ''Unknown task_type: upscale''\<rparr>,
      fresh [''person.png''])
   \<and> sublist ''upscale'' ''Unknown task_type: upscale''"
  using
    unknown_task_type_is_reported
      [of "[(''id'', PStr ''job-9''),
            (''input'', PDict [(''task_type'', PStr ''upscale''),
                              (''image_path'', PStr ''person.png'')])]"
          "[(''task_type'', PStr ''upscale''), (''image_path'', PStr ''person.png'')]"
          "PStr ''upscale''" example_env "fresh [''person.png'']"]
  by (simp add: job_input_of_def dict_get_def py_str_def)

lemma handle_infer_cong_lookup:
  assumes "\<And>k. k \<noteq> ''task_type'' \<Longrightarrow> map_of d' k = map_of d k"
  shows "handle_infer env d' job_id = handle_infer env d job_id"
proof -
  have "dict_get d' k x = dict_get d k x" if "k \<noteq> ''task_type''" for k x
    using assms [OF that] by (simp add: dict_get_def)
  then show ?thesis
    by (simp add: handle_infer_def Let_def)
qed

text \<open>
  C8. An event whose input has no task_type key gets the same outcome (result or
  exception, and final state) as the event that differs from it only in carrying
  task_type = "infer" in its input.
\<close>

theorem omitted_task_type_is_infer:
  assumes "job_input_of event = PDict d"
    and "map_of d ''task_type'' = None"
    and "map_of event' = (map_of event)(''input'' \<mapsto> PDict d')"
    and "map_of d' = (map_of d)(''task_type'' \<mapsto> PStr ''infer'')"
  shows "handler env event' s = handler env event s"
proof -
  have "map_of d' ''task_type'' = Some (PStr ''infer'')"
    using assms(4) by simp
  then have "d' \<noteq> []" by auto
  then have in': "job_input_of event' = PDict d'"
    using assms(3) by (simp add: job_input_of_def dict_get_def)
  have id: "dict_get event' ''id'' (PStr ''unknown'') = dict_get event ''id'' (PStr ''unknown'')"
    using assms(3) by (simp add: dict_get_def)
  have t': "dict_get d' ''task_type'' (PStr ''infer'') = PStr ''infer''"
    using assms(4) by (simp add: dict_get_def)
  have t: "dict_get d ''task_type'' (PStr ''infer'') = PStr ''infer''"
    using assms(2) by (simp add: dict_get_def)
  have "handle_infer env d' = handle_infer env d"
    by (rule ext, rule handle_infer_cong_lookup) (simp add: assms(4))
  then show ?thesis
    using assms(1) in' id t' t by (simp add: handler_on_dict)
qed

theorem omitted_task_type_is_infer_witness:
  "handler example_env
     [(''id'', PStr ''job-4''),
      (''input'', PDict [(''task_type'', PStr ''infer''), (''prompt'', PStr ''a red hat''),
                        (''image_paths'', PList [PStr ''person.png''])])]
     (fresh [''person.png''])
   = handler example_env
     [(''id'', PStr ''job-4''),
      (''input'', PDict [(''prompt'', PStr ''a red hat''),
                        (''image_paths'', PList [PStr ''person.png''])])]
     (fresh [''person.png''])"
proof (rule omitted_task_type_is_infer)
  show "job_input_of [(''id'', PStr ''job-4''),
                (''input'', PDict [(''prompt'', PStr ''a red hat''),
                                  (''image_paths'', PList [PStr ''person.png''])])]
        = PDict [(''prompt'', PStr ''a red hat''),
                 (''image_paths'', PList [PStr ''person.png''])]"
    by (simp add: job_input_of_def dict_get_def)
  show "map_of [(''prompt'', PStr ''a red hat''),
                (''image_paths'', PList [PStr ''person.png''])] ''task_type'' = None"
    by simp
  show "map_of [(''id'', PStr ''job-4''),
                (''input'', PDict [(''task_type'', PStr ''infer''), (''prompt'', PStr ''a red hat''),
                                  (''image_paths'', PList [PStr ''person.png''])])]
        = (map_of [(''id'', PStr ''job-4''),
                   (''input'', PDict [(''prompt'', PStr ''a red hat''),
                                     (''image_paths'', PList [PStr ''person.png''])])])
          (''input'' \<mapsto> PDict [(''task_type'', PStr ''infer''), (''prompt'', PStr ''a red hat''),
                                  (''image_paths'', PList [PStr ''person.png''])])"
    by (simp add: fun_eq_iff)
  show "map_of [(''task_type'', PStr ''infer''), (''prompt'', PStr ''a red hat''),
                (''image_paths'', PList [PStr ''person.png''])]
        = (map_of [(''prompt'', PStr ''a red hat''),
                   (''image_paths'', PList [PStr ''person.png''])])
          (''task_type'' \<mapsto> PStr ''infer'')"
    by (simp add: fun_eq_iff)
qed

lemma handle_infer_shape:
  assumes "handle_infer env d job_id s = (Inr r, s')"
  shows "exactly_one_populated (success r) (image_base64 r) (error_message r)"
proof (cases "\<not> py_truthy (dict_get d ''prompt'' PNone)
              \<or> \<not> py_truthy (dict_get d ''image_paths'' PNone)")
  case True
  from handle_infer_invalid [OF this, of env job_id s] assms
  show ?thesis by (auto simp add: exactly_one_populated_def)
next
  case False
  with assms obtain m s9 where
    "try_except
       (then_do m (\<lambda>b64. ret \<lparr>success = True, image_base64 = Some b64, error_message = None\<rparr>))
       (\<lambda>exc. ret \<lparr>success = False, image_base64 = None, error_message = Some (exc_str exc)\<rparr>) s9
     = (Inr r, s')"
    by (auto simp add: handle_infer_def Let_def dest!: then_do_returnsD)
  from guarded_returns [OF this] show ?thesis
    by (auto simp add: exactly_one_populated_def)
qed

lemma handle_remove_background_shape:
  assumes "handle_remove_background env d job_id s = (Inr r, s')"
  shows "exactly_one_populated (success r) (image_base64 r) (error_message r)"
proof (cases "py_truthy (dict_get d ''image_path'' PNone)")
  case False
  with assms show ?thesis
    by (auto simp add: handle_remove_background_def Let_def exactly_one_populated_def)
next
  case True
  with assms obtain body s1 where
    "try_except body
       (\<lambda>exc. ret \<lparr>success = False, image_base64 = None, error_message = Some (exc_str exc)\<rparr>) s1
     = (Inr r, s')"
    and "body = then_do (remove_background env (dict_get d ''image_path'' PNone)
              (Some (os_path_join (os_path_join (os_path_join ''/tmp'' ''bg_removed'') job_id)
                 ''removed.png'')) ''outputs/bg_removed'') (\<lambda>processed_path.
              then_do (encode_image_file_to_base64 env processed_path) (\<lambda>b64.
              ret \<lparr>success = True, image_base64 = Some b64, error_message = None\<rparr>))"
    by (auto simp add: handle_remove_background_def Let_def dest!: then_do_returnsD)
  then show ?thesis
    by (auto simp add: exactly_one_populated_def dest!: try_except_returnsD then_do_returnsD)
qed

text \<open>
  C4. Every result the queue handler returns, and the response of each HTTP endpoint
  (which always returns one), has exactly one of payload and error set, as the success
  flag says: with success the payload (image_base64, or output_path for the removal
  endpoint) is set and error_message is null; without it the payload is null and
  error_message is set.
\<close>

theorem results_carry_payload_or_error:
  "(handler env event s = (Inr r, s') \<longrightarrow>
      exactly_one_populated (success r) (image_base64 r) (error_message r))
   \<and> (\<exists>r s'. infer env request s = (Inr r, s')
         \<and> exactly_one_populated (success r) (image_base64 r) (error_message r))
   \<and> (\<exists>r s'. remove_bg env removal s = (Inr r, s')
         \<and> exactly_one_populated (removal_success r) (removal_output_path r)
              (removal_error_message r))"
proof (intro conjI impI)
  assume h: "handler env event s = (Inr r, s')"
  show "exactly_one_populated (success r) (image_base64 r) (error_message r)"
  proof (cases "job_input_of event")
    case (PDict d)
    with h show ?thesis
      by (auto simp add: handler_on_dict Let_def exactly_one_populated_def
            dest: handle_infer_shape handle_remove_background_shape split: if_splits)
  qed (use h in \<open>simp_all add: handler_def\<close>)
next
  show "\<exists>r s'. infer env request s = (Inr r, s')
         \<and> exactly_one_populated (success r) (image_base64 r) (error_message r)"
    by (auto simp add: infer_def try_except_ret exactly_one_populated_def
          split: prod.splits sum.splits)
next
  show "\<exists>r s'. remove_bg env removal s = (Inr r, s')
         \<and> exactly_one_populated (removal_success r) (removal_output_path r)
              (removal_error_message r)"
    by (auto simp add: remove_bg_def try_except_ret exactly_one_populated_def
          split: prod.splits sum.splits)
qed

theorem results_carry_payload_or_error_witness:
  "fst (handler example_env
          [(''id'', PStr ''job-3''),
           (''input'', PDict [(''task_type'', PStr ''remove_background''),
                             (''image_path'', PStr ''person.png'')])]
          (fresh [''person.png'']))
     = Inr \<lparr>success = True,
             image_base64 =
               Some ''base64 of PNG of image /tmp/bg_removed/job-3/removed.png as RGB'',
             error_message = None\<rparr>
   \<and> exactly_one_populated True
       (Some ''base64 of PNG of image /tmp/bg_removed/job-3/removed.png as RGB'')
       (None :: string option)"
proof -
  let ?ev = "[(''id'', PStr ''job-3''),
              (''input'', PDict [(''task_type'', PStr ''remove_background''),
                                (''image_path'', PStr ''person.png'')])]"
  let ?r = "\<lparr>success = True,
             image_base64 =
               Some ''base64 of PNG of image /tmp/bg_removed/job-3/removed.png as RGB'',
             error_message = None\<rparr>"
  have run: "fst (handler example_env ?ev (fresh [''person.png''])) = Inr ?r"
    by (simp add: run_simps)
  from results_carry_payload_or_error
         [of example_env ?ev "fresh [''person.png'']" ?r
             "snd (handler example_env ?ev (fresh [''person.png'']))"]
       returns_with_final_state [OF run]
  have "exactly_one_populated (success ?r) (image_base64 ?r) (error_message ?r)"
    by blast
  with run show ?thesis by simp
qed

section \<open>Failures after validation\<close>

text \<open>
  C2. The specification has every failure after validation come back as a failed
  result. The code does that for \<open>run_inference\<close>, the only call inside the \<open>try\<close> of
  \<open>_handle_infer\<close>; the loop that removes backgrounds runs before the \<open>try\<close>. On the job
  below (one image, background removal asked for, the image file missing) the handler
  raises the loader's \<open>FileNotFoundError\<close> instead of returning a result.
\<close>

theorem removal_error_escapes_handler:
  "fst (handler example_env
          [(''id'', PStr ''job-2''),
           (''input'', PDict [(''prompt'', PStr ''a red hat''),
                             (''image_paths'', PList [PStr ''person.png'']),
                             (''remove_background'', PBool True)])]
          (fresh []))
     = Inl (PyExn ''FileNotFoundError'' ''No such file or directory: person.png'')"
  by (simp add: run_simps)

text \<open>
  The same missing file, met inside a \<open>try\<close>: by the generator's loader when no removal
  is asked for, and by the remove-background task. Both come back as failed results.
\<close>

lemma loader_error_is_reported:
  "fst (handler example_env
          [(''id'', PStr ''job-2''),
           (''input'', PDict [(''prompt'', PStr ''a red hat''),
                             (''image_paths'', PList [PStr ''person.png''])])]
          (fresh []))
     = Inr \<lparr>success = False, image_base64 = None,
             error_message = Some ''No such file or directory: person.png''\<rparr>"
  by (simp add: run_simps)

lemma removal_task_error_is_reported:
  "fst (handler example_env
          [(''id'', PStr ''job-2''),
           (''input'', PDict [(''task_type'', PStr ''remove_background''),
                             (''image_path'', PStr ''person.png'')])]
          (fresh []))
     = Inr \<lparr>success = False, image_base64 = None,
             error_message = Some ''No such file or directory: person.png''\<rparr>"
  by (simp add: run_simps)

text \<open>
  What holds in general: once the loop over the images has returned, \<open>_handle_infer\<close>
  returns a result whatever \<open>run_inference\<close> does, and a generator error becomes the
  message of a failed result.
\<close>

lemma generator_errors_are_caught:
  "try_except
     (then_do (run_inference env prompt paths height width guidance_scale steps) (\<lambda>b64.
      ret \<lparr>success = True, image_base64 = Some b64, error_message = None\<rparr>))
     (\<lambda>exc. ret \<lparr>success = False, image_base64 = None, error_message = Some (exc_str exc)\<rparr>) s
   = (case run_inference env prompt paths height width guidance_scale steps s of
        (Inl exc, s') \<Rightarrow>
          (Inr \<lparr>success = False, image_base64 = None, error_message = Some (exc_str exc)\<rparr>, s')
      | (Inr b64, s') \<Rightarrow>
          (Inr \<lparr>success = True, image_base64 = Some b64, error_message = None\<rparr>, s'))"
  by (rule try_except_ret)

section \<open>The number of image references\<close>









section \<open>The generated output path\<close>

lemma endswith_append_same: "endswith (xs @ suf) suf"
  by (simp add: endswith_def)

lemma no_dot_not_png: "CHR ''.'' \<notin> set b \<Longrightarrow> \<not> endswith b ''.png''"
proof
  assume nd: "CHR ''.'' \<notin> set b" and e: "endswith b ''.png''"
  from e have t: "take (length ''.png'') (rev b) = rev ''.png''"
    by (simp only: endswith_def)
  have "CHR ''.'' \<in> set (rev ''.png'')" by simp
  with t have "CHR ''.'' \<in> set (take (length ''.png'') (rev b))" by (simp only:)
  then have "CHR ''.'' \<in> set (rev b)" by (rule in_set_takeD)
  with nd show False by simp
qed

lemma basename_subset: "set (os_path_basename b) \<subseteq> set b"
  by (auto simp add: os_path_basename_def dest: set_takeWhileD)

lemma basename_no_slash: "CHR ''/'' \<notin> set (os_path_basename p)"
  by (auto simp add: os_path_basename_def dest: set_takeWhileD)

lemma no_dot_splitext: "CHR ''.'' \<notin> set b \<Longrightarrow> os_path_splitext b = (b, [])"
proof -
  assume "CHR ''.'' \<notin> set b"
  with basename_subset [of b] have "CHR ''.'' \<notin> set (os_path_basename b)" by blast
  then show ?thesis by (simp add: os_path_splitext_def Let_def)
qed

lemma splitext_root_subset: "set (fst (os_path_splitext b)) \<subseteq> set b"
proof -
  have "set (take n (os_path_basename b)) \<subseteq> set b" for n
    using set_take_subset [of n "os_path_basename b"] basename_subset [of b] by blast
  moreover have "set (take n b) \<subseteq> set b" for n
    by (rule set_take_subset)
  ultimately show ?thesis
    by (auto simp add: os_path_splitext_def Let_def)
qed

lemma generated_base_name_png: "endswith (generated_base_name parsed ref) ''.png''"
  by (simp add: generated_base_name_def Let_def endswith_append_same)

lemma generated_base_name_no_slash: "CHR ''/'' \<notin> set (generated_base_name parsed ref)"
proof -
  have root: "CHR ''/'' \<notin> set (fst (os_path_splitext b))" if "CHR ''/'' \<notin> set b" for b
    using that splitext_root_subset [of b] by blast
  have step: "CHR ''/'' \<notin> set (if \<not> endswith b ''.png''
                                  then fst (os_path_splitext b) @ ''.png'' else b)"
    if "CHR ''/'' \<notin> set b" for b
    using that root [OF that] by simp
  show ?thesis
    unfolding generated_base_name_def Let_def
    by (rule step) (simp add: basename_no_slash)
qed

lemma generated_base_name_spec:
  assumes "is_url parsed \<or> os_path_basename ref \<noteq> []"
  shows "generated_base_name parsed ref = spec_file_name (reference_basename parsed ref)"
  using assms
  unfolding generated_base_name_def spec_file_name_def reference_basename_def is_url_def
  by (auto simp add: Let_def endswith_append_same no_dot_not_png no_dot_splitext)

lemma generated_base_name_local_empty:
  assumes "\<not> is_url parsed" and "os_path_basename ref = []"
  shows "generated_base_name parsed ref = ''.png''"
  using assms by (simp add: generated_base_name_def is_url_def Let_def endswith_def)

lemma basename_empty_iff:
  "os_path_basename p = [] \<longleftrightarrow> p = [] \<or> last p = CHR ''/''"
proof (cases "p = []")
  case True
  then show ?thesis by (simp add: os_path_basename_def)
next
  case False
  then have "hd (rev p) = last p" by (simp add: hd_rev)
  with False show ?thesis
    by (simp add: os_path_basename_def takeWhile_eq_Nil_iff)
qed

lemma example_env_loader: "loader_rejects_empty_basename example_env"
  by (simp add: loader_rejects_empty_basename_def basename_empty_iff example_env_def)

lemma remove_background_generated:
  assumes "remove_background env (PStr ref) None output_dir s = (Inr p, s')"
  shows "\<exists>parsed. urlparse env ref = Inr parsed
           \<and> p = os_path_join output_dir (generated_base_name parsed ref)
           \<and> (\<not> is_url parsed \<longrightarrow> (\<exists>img w'. Image_open env (world s) ref = (Inr img, w')))"
  using assms
  by (auto simp add: remove_background_def is_url_def
        dest!: then_do_returnsD extern_returnsD split: if_splits)

text \<open>
  The naming code has its "image" fallback in the URL branch only. In the other branch
  the reference has been opened as a file by then, so its basename is not empty and
  the fallback has nothing to do: on every run that reaches the naming code, the name
  is the one of the specification.
\<close>

lemma generated_name_is_spec_name:
  assumes "loader_rejects_empty_basename env"
    and "remove_background env (PStr ref) None output_dir s = (Inr p, s')"
  shows "\<exists>parsed. urlparse env ref = Inr parsed
           \<and> p = os_path_join output_dir (generated_base_name parsed ref)
           \<and> generated_base_name parsed ref = spec_file_name (reference_basename parsed ref)"
proof -
  from remove_background_generated [OF assms(2)] obtain parsed where
    parsed: "urlparse env ref = Inr parsed"
    and p: "p = os_path_join output_dir (generated_base_name parsed ref)"
    and opened: "\<not> is_url parsed \<longrightarrow> (\<exists>img w'. Image_open env (world s) ref = (Inr img, w'))"
    by blast
  have "is_url parsed \<or> os_path_basename ref \<noteq> []"
  proof (rule disjCI)
    assume empty: "\<not> os_path_basename ref \<noteq> []"
    show "is_url parsed"
    proof (rule ccontr)
      assume "\<not> is_url parsed"
      with opened obtain img w' where "Image_open env (world s) ref = (Inr img, w')"
        by blast
      moreover from assms(1) empty obtain e w'' where
        "Image_open env (world s) ref = (Inl e, w'')"
        unfolding loader_rejects_empty_basename_def by blast
      ultimately show False by simp
    qed
  qed
  then have "generated_base_name parsed ref = spec_file_name (reference_basename parsed ref)"
    by (rule generated_base_name_spec)
  with parsed p show ?thesis by blast
qed

text \<open>
  C6. Let the loader be one that opens no path with an empty basename, as the file
  system has it. Then whenever \<open>remove_background\<close>, given no output location, returns,
  the path it returns is the output directory joined with the file name of the
  specification: the basename of the reference (of the URL's path for an http/https
  URL, of the path itself otherwise), "image" if that is empty, kept if it already
  ends in ".png" and with its extension replaced by ".png" (or ".png" appended)
  otherwise. That name has no slash, so the join keeps the output directory in front
  of it. The path depends on the reference and the output directory only: any two runs
  on the same reference return the same path.
\<close>

theorem generated_output_path:
  assumes "loader_rejects_empty_basename env"
    and "fst (remove_background env (PStr ref) None output_dir s1) = Inr p1"
    and "fst (remove_background env (PStr ref) None output_dir s2) = Inr p2"
  shows "p1 = p2
         \<and> (\<exists>parsed. urlparse env ref = Inr parsed
               \<and> p1 = os_path_join output_dir (spec_file_name (reference_basename parsed ref))
               \<and> os_path_join output_dir (spec_file_name (reference_basename parsed ref))
                   = (if output_dir = [] \<or> last output_dir = CHR ''/''
                      then output_dir @ spec_file_name (reference_basename parsed ref)
                      else output_dir @ ''/'' @ spec_file_name (reference_basename parsed ref))
               \<and> CHR ''/'' \<notin> set (spec_file_name (reference_basename parsed ref))
               \<and> endswith (spec_file_name (reference_basename parsed ref)) ''.png''
               \<and> spec_file_name (reference_basename parsed ref)
                   = generated_base_name parsed ref)"
proof -
  from generated_name_is_spec_name [OF assms(1) returns_with_final_state [OF assms(2)]]
  obtain parsed where parsed: "urlparse env ref = Inr parsed"
    and p1: "p1 = os_path_join output_dir (generated_base_name parsed ref)"
    and name: "generated_base_name parsed ref = spec_file_name (reference_basename parsed ref)"
    by blast
  from generated_name_is_spec_name [OF assms(1) returns_with_final_state [OF assms(3)]]
  obtain parsed' where "urlparse env ref = Inr parsed'"
    and p2: "p2 = os_path_join output_dir (generated_base_name parsed' ref)"
    by blast
  with parsed have "parsed' = parsed" by simp
  with p1 p2 have same: "p1 = p2" by simp
  let ?name = "spec_file_name (reference_basename parsed ref)"
  have png: "endswith ?name ''.png''"
    using generated_base_name_png [of parsed ref] name by simp
  have no_slash: "CHR ''/'' \<notin> set ?name"
    using generated_base_name_no_slash [of parsed ref] name by simp
  from png have "?name \<noteq> []"
    by (auto simp add: endswith_def)
  then have "hd ?name \<in> set ?name" by simp
  with no_slash have "hd ?name \<noteq> CHR ''/''" by auto
  then have joined: "os_path_join output_dir ?name
      = (if output_dir = [] \<or> last output_dir = CHR ''/''
         then output_dir @ ?name else output_dir @ ''/'' @ ?name)"
    by (simp add: os_path_join_def)
  from p1 name have p1': "p1 = os_path_join output_dir ?name" by simp
  show ?thesis
  proof (intro conjI exI [of _ parsed])
    show "p1 = p2" by (rule same)
    show "urlparse env ref = Inr parsed" by (rule parsed)
    show "p1 = os_path_join output_dir ?name" by (rule p1')
    show "os_path_join output_dir ?name
      = (if output_dir = [] \<or> last output_dir = CHR ''/''
         then output_dir @ ?name else output_dir @ ''/'' @ ?name)" by (rule joined)
    show "CHR ''/'' \<notin> set ?name" by (rule no_slash)
    show "endswith ?name ''.png''" by (rule png)
    show "?name = generated_base_name parsed ref" by (rule name [symmetric])
  qed
qed

theorem generated_output_path_witness:
  "loader_rejects_empty_basename example_env
   \<and> fst (remove_background example_env (PStr ''http://shop.example/looks/'') None
          ''outputs/bg_removed'' (fresh []))
     = Inr ''outputs/bg_removed/image.png''
   \<and> fst (remove_background example_env (PStr ''http://shop.example/looks/'') None
          ''outputs/bg_removed'' (fresh [''person.png'']))
     = Inr ''outputs/bg_removed/image.png''
   \<and> fst (remove_background example_env (PStr ''photos/person.jpg'') None
          ''outputs/bg_removed'' (fresh [''photos/person.jpg'']))
     = Inr ''outputs/bg_removed/person.png''
   \<and> (\<exists>parsed. urlparse example_env ''http://shop.example/looks/'' = Inr parsed
         \<and> ''outputs/bg_removed/image.png''
             = os_path_join ''outputs/bg_removed''
                 (spec_file_name (reference_basename parsed ''http://shop.example/looks/'')))
   \<and> (\<exists>parsed. urlparse example_env ''photos/person.jpg'' = Inr parsed
         \<and> ''outputs/bg_removed/person.png''
             = os_path_join ''outputs/bg_removed''
                 (spec_file_name (reference_basename parsed ''photos/person.jpg'')))"
proof -
  have r1: "fst (remove_background example_env (PStr ''http://shop.example/looks/'') None
                   ''outputs/bg_removed'' (fresh []))
            = Inr ''outputs/bg_removed/image.png''"
    by code_simp
  have r2: "fst (remove_background example_env (PStr ''http://shop.example/looks/'') None
                   ''outputs/bg_removed'' (fresh [''person.png'']))
            = Inr ''outputs/bg_removed/image.png''"
    by code_simp
  have r3: "fst (remove_background example_env (PStr ''photos/person.jpg'') None
                   ''outputs/bg_removed'' (fresh [''photos/person.jpg'']))
            = Inr ''outputs/bg_removed/person.png''"
    by code_simp
  from generated_output_path [OF example_env_loader r1 r2]
  have u: "\<exists>parsed. urlparse example_env ''http://shop.example/looks/'' = Inr parsed
         \<and> ''outputs/bg_removed/image.png''
             = os_path_join ''outputs/bg_removed''
                 (spec_file_name (reference_basename parsed ''http://shop.example/looks/''))"
    by blast
  from generated_output_path [OF example_env_loader r3 r3]
  have l: "\<exists>parsed. urlparse example_env ''photos/person.jpg'' = Inr parsed
         \<and> ''outputs/bg_removed/person.png''
             = os_path_join ''outputs/bg_removed''
                 (spec_file_name (reference_basename parsed ''photos/person.jpg''))"
    by blast
  from example_env_loader r1 r2 r3 u l show ?thesis by blast
qed

section \<open>The payload of the remove-background task\<close>

lemma remove_background_given:
  assumes "remove_background env ref (Some given) output_dir s = (Inr p, s1)"
  shows "p = given \<and>
         (\<exists>input_image session output_image w0 w1 w2 before.
            rembg_remove env w0 input_image session = (Inr output_image, w1)
          \<and> Image_save env w2 output_image given = (Inr (), world s1)
          \<and> calls s1 = before @ [ImageSave output_image given])"
proof (cases ref)
  case (PStr r)
  with assms show ?thesis
    apply (clarsimp simp add: remove_background_def Let_def dest!: then_do_returnsD)
    apply (drule extern_returnsD)+
    apply clarsimp
    apply blast
    done
qed (use assms in \<open>simp_all add: remove_background_def\<close>)

lemma encode_image_file_returns:
  assumes "encode_image_file_to_base64 env file_path s1 = (Inr b, s')"
  shows "\<exists>reopened w' rgb png.
           Image_open env (world s1) file_path = (Inr reopened, w')
         \<and> Image_convert env reopened ''RGB'' = Inr rgb
         \<and> Image_save_png env rgb = Inr png
         \<and> b = b64encode env png
         \<and> calls s' = calls s1 @ [ImageOpen file_path]"
  using assms
  by (auto simp add: encode_image_file_to_base64_def dest!: then_do_returnsD extern_returnsD)

lemma handle_remove_background_success:
  assumes "handle_remove_background env d job_id s = (Inr r, s')" and "success r"
  shows "\<exists>s0 s1 out_path b.
           out_path = os_path_join (os_path_join (os_path_join ''/tmp'' ''bg_removed'') job_id)
                        ''removed.png''
         \<and> remove_background env (dict_get d ''image_path'' PNone) (Some out_path)
             ''outputs/bg_removed'' s0 = (Inr out_path, s1)
         \<and> encode_image_file_to_base64 env out_path s1 = (Inr b, s')
         \<and> image_base64 r = Some b"
proof (cases "py_truthy (dict_get d ''image_path'' PNone)")
  case False
  with assms show ?thesis
    by (auto simp add: handle_remove_background_def Let_def)
next
  case True
  define out_path where
    "out_path = os_path_join (os_path_join (os_path_join ''/tmp'' ''bg_removed'') job_id)
                  ''removed.png''"
  from True assms(1) obtain s0 where
    t: "try_except
         (then_do (remove_background env (dict_get d ''image_path'' PNone) (Some out_path)
                     ''outputs/bg_removed'') (\<lambda>processed_path.
          then_do (encode_image_file_to_base64 env processed_path) (\<lambda>b64.
          ret \<lparr>success = True, image_base64 = Some b64, error_message = None\<rparr>)))
         (\<lambda>exc. ret \<lparr>success = False, image_base64 = None, error_message = Some (exc_str exc)\<rparr>)
         s0 = (Inr r, s')"
    by (auto simp add: handle_remove_background_def Let_def out_path_def dest!: then_do_returnsD)
  from try_except_returnsD [OF t] assms(2)
  have "then_do (remove_background env (dict_get d ''image_path'' PNone) (Some out_path)
                     ''outputs/bg_removed'') (\<lambda>processed_path.
          then_do (encode_image_file_to_base64 env processed_path) (\<lambda>b64.
          ret \<lparr>success = True, image_base64 = Some b64, error_message = None\<rparr>)) s0 = (Inr r, s')"
    by auto
  then obtain p s1 b where
    rb: "remove_background env (dict_get d ''image_path'' PNone) (Some out_path)
           ''outputs/bg_removed'' s0 = (Inr p, s1)"
    and enc: "encode_image_file_to_base64 env p s1 = (Inr b, s')"
    and r: "r = \<lparr>success = True, image_base64 = Some b, error_message = None\<rparr>"
    by (auto dest!: then_do_returnsD)
  from remove_background_given [OF rb] have "p = out_path" by simp
  with rb enc r show ?thesis by (auto simp add: out_path_def)
qed

text \<open>
  C10. When the remove-background task succeeds, the image_base64 it returns is the
  base64 of the PNG bytes of the processed file (\<open>removed.png\<close> in the job's temporary
  directory) re-opened, from the world as the save left it, and converted to RGB. The file itself was saved from the remover's output as
  it came, with no conversion, and re-opening it is the handler's last outside call: what
  the conversion to RGB drops (an alpha channel) is missing from the payload and not
  from the file.
\<close>

theorem removal_payload_is_rgb_reencoding:
  assumes "job_input_of event = PDict d"
    and "dict_get d ''task_type'' (PStr ''infer'') = PStr ''remove_background''"
    and "handler (env :: ('w, 'i, 's, 'p) env) event s = (Inr r, s')"
    and "success r"
  shows "\<exists>out_path input_image session output_image w0 w1 w2 (s1 :: ('w, 'i, 's, 'p) state)
            before reopened w3 rgb png.
           out_path = os_path_join (os_path_join (os_path_join ''/tmp'' ''bg_removed'')
                         (py_str env (dict_get event ''id'' (PStr ''unknown'')))) ''removed.png''
         \<and> rembg_remove env w0 input_image session = (Inr output_image, w1)
         \<and> Image_save env w2 output_image out_path = (Inr (), world s1)
         \<and> calls s1 = before @ [ImageSave output_image out_path]
         \<and> Image_open env (world s1) out_path = (Inr reopened, w3)
         \<and> Image_convert env reopened ''RGB'' = Inr rgb
         \<and> Image_save_png env rgb = Inr png
         \<and> image_base64 r = Some (b64encode env png)
         \<and> calls s' = calls s1 @ [ImageOpen out_path]"
proof -
  from assms(1-3) have
    "handle_remove_background env d (py_str env (dict_get event ''id'' (PStr ''unknown''))) s
       = (Inr r, s')"
    by (simp add: handler_on_dict)
  from handle_remove_background_success [OF this assms(4)]
  obtain s0 s1 out_path b where
    out: "out_path = os_path_join (os_path_join (os_path_join ''/tmp'' ''bg_removed'')
                         (py_str env (dict_get event ''id'' (PStr ''unknown'')))) ''removed.png''"
    and rb: "remove_background env (dict_get d ''image_path'' PNone) (Some out_path)
           ''outputs/bg_removed'' s0 = (Inr out_path, s1)"
    and enc: "encode_image_file_to_base64 env out_path s1 = (Inr b, s')"
    and b: "image_base64 r = Some b"
    by blast
  from remove_background_given [OF rb] obtain input_image session output_image w0 w1 w2 before
    where rm: "rembg_remove env w0 input_image session = (Inr output_image, w1)"
      and sv: "Image_save env w2 output_image out_path = (Inr (), world s1)"
      and c1: "calls s1 = before @ [ImageSave output_image out_path]"
    by blast
  from encode_image_file_returns [OF enc] obtain reopened w3 rgb png
    where op: "Image_open env (world s1) out_path = (Inr reopened, w3)"
      and cv: "Image_convert env reopened ''RGB'' = Inr rgb"
      and pn: "Image_save_png env rgb = Inr png"
      and b64: "b = b64encode env png"
      and c2: "calls s' = calls s1 @ [ImageOpen out_path]"
    by blast
  have all:
    "out_path = os_path_join (os_path_join (os_path_join ''/tmp'' ''bg_removed'')
                   (py_str env (dict_get event ''id'' (PStr ''unknown'')))) ''removed.png''
     \<and> rembg_remove env w0 input_image session = (Inr output_image, w1)
     \<and> Image_save env w2 output_image out_path = (Inr (), world s1)
     \<and> calls s1 = before @ [ImageSave output_image out_path]
     \<and> Image_open env (world s1) out_path = (Inr reopened, w3)
     \<and> Image_convert env reopened ''RGB'' = Inr rgb
     \<and> Image_save_png env rgb = Inr png
     \<and> image_base64 r = Some (b64encode env png)
     \<and> calls s' = calls s1 @ [ImageOpen out_path]"
    using out rm sv c1 op cv pn b b64 c2 by simp
  show ?thesis
    by (intro exI) (rule all)
qed

theorem removal_payload_is_rgb_reencoding_witness:
  "\<exists>r s'.
     handler example_env
       [(''id'', PStr ''job-3''),
        (''input'', PDict [(''task_type'', PStr ''remove_background''),
                          (''image_path'', PStr ''person.png'')])]
       (fresh [''person.png'']) = (Inr r, s')
   \<and> success r
   \<and> image_base64 r
       = Some ''base64 of PNG of image /tmp/bg_removed/job-3/removed.png as RGB''
   \<and> (\<exists>out_path input_image session output_image w0 w1 w2
          (s1 :: (string list, string, unit, unit) state) before reopened w3 rgb png.
           out_path = ''/tmp/bg_removed/job-3/removed.png''
         \<and> rembg_remove example_env w0 input_image session = (Inr output_image, w1)
         \<and> Image_save example_env w2 output_image out_path = (Inr (), world s1)
         \<and> calls s1 = before @ [ImageSave output_image out_path]
         \<and> Image_open example_env (world s1) out_path = (Inr reopened, w3)
         \<and> Image_convert example_env reopened ''RGB'' = Inr rgb
         \<and> Image_save_png example_env rgb = Inr png
         \<and> image_base64 r = Some (b64encode example_env png)
         \<and> calls s' = calls s1 @ [ImageOpen out_path])"
proof -
  let ?ev = "[(''id'', PStr ''job-3''),
              (''input'', PDict [(''task_type'', PStr ''remove_background''),
                                (''image_path'', PStr ''person.png'')])]"
  let ?r = "\<lparr>success = True,
             image_base64 =
               Some ''base64 of PNG of image /tmp/bg_removed/job-3/removed.png as RGB'',
             error_message = None\<rparr>"
  let ?s' = "snd (handler example_env ?ev (fresh [''person.png'']))"
  have "fst (handler example_env ?ev (fresh [''person.png''])) = Inr ?r"
    by (simp add: run_simps)
  then have run: "handler example_env ?ev (fresh [''person.png'']) = (Inr ?r, ?s')"
    by (rule returns_with_final_state)
  have input: "job_input_of ?ev = PDict [(''task_type'', PStr ''remove_background''),
                                         (''image_path'', PStr ''person.png'')]"
    by (simp add: job_input_of_def dict_get_def)
  have task: "dict_get [(''task_type'', PStr ''remove_background''),
                        (''image_path'', PStr ''person.png'')] ''task_type'' (PStr ''infer'')
              = PStr ''remove_background''"
    by (simp add: dict_get_def)
  have ok: "success ?r" by simp
  have "os_path_join (os_path_join (os_path_join ''/tmp'' ''bg_removed'')
           (py_str example_env (dict_get ?ev ''id'' (PStr ''unknown'')))) ''removed.png''
        = ''/tmp/bg_removed/job-3/removed.png''"
    by (simp add: os_path_join_def py_str_def dict_get_def)
  note concl = removal_payload_is_rgb_reencoding [OF input task run ok, unfolded this]
  show ?thesis
  proof (intro exI [of _ ?r] exI [of _ ?s'] conjI)
    show "handler example_env ?ev (fresh [''person.png'']) = (Inr ?r, ?s')" by (rule run)
    show "success ?r" by (rule ok)
    show "image_base64 ?r
          = Some ''base64 of PNG of image /tmp/bg_removed/job-3/removed.png as RGB''"
      by simp
    show "\<exists>out_path input_image session output_image w0 w1 w2
          (s1 :: (string list, string, unit, unit) state) before reopened w3 rgb png.
           out_path = ''/tmp/bg_removed/job-3/removed.png''
         \<and> rembg_remove example_env w0 input_image session = (Inr output_image, w1)
         \<and> Image_save example_env w2 output_image out_path = (Inr (), world s1)
         \<and> calls s1 = before @ [ImageSave output_image out_path]
         \<and> Image_open example_env (world s1) out_path = (Inr reopened, w3)
         \<and> Image_convert example_env reopened ''RGB'' = Inr rgb
         \<and> Image_save_png example_env rgb = Inr png
         \<and> image_base64 ?r = Some (b64encode example_env png)
         \<and> calls ?s' = calls s1 @ [ImageOpen out_path]"
      by (rule concl)
  qed
qed

end
